theory Spec2Isabelle
  imports Main
begin

section \<open>The PDF question-answering backend (backend/main.py)\<close>

text \<open>
  The backend keeps two process-wide dictionaries, \<open>sessions\<close> and the
  \<open>active_connections\<close> of the \<open>WebSocketManager\<close>, writes uploaded files below
  \<open>uploads\<close>, and talks to web sockets. The model threads one record \<open>app_state\<close>
  holding the two dictionaries, the files on disk and the log of every call made on a
  web socket. Each handler is a function from the state to a result and the new state.

  Library calls (the PDF loader, the splitter, the vector index, the chain, the
  summariser, the socket transport) are not part of the program: every one is a field of
  an environment record, with a result that says whether the call raised. The theorems
  hold for every environment. A handler runs without interleaving of other handlers
  between its awaits.
\<close>

subsection \<open>Python strings and paths\<close>

definition endswith :: "string \<Rightarrow> string \<Rightarrow> bool" where
  "endswith s suffix =
     (length suffix \<le> length s \<and> drop (length s - length suffix) s = suffix)"

definition startswith :: "string \<Rightarrow> string \<Rightarrow> bool" where
  "startswith s prefix = (take (length prefix) s = prefix)"

text \<open>\<open>os.path.join a b\<close> on a POSIX system, for two components.\<close>

definition os_path_join :: "string \<Rightarrow> string \<Rightarrow> string" where
  "os_path_join a b =
     (if startswith b ''/'' then b
      else if a = [] \<or> endswith a ''/'' then a @ b
      else a @ ''/'' @ b)"

definition UPLOAD_DIR :: string where
  "UPLOAD_DIR = ''uploads''"

text \<open>\<open>str(KeyError(k))\<close> is the key in single quotes.\<close>

definition str_KeyError :: "string \<Rightarrow> string" where
  "str_KeyError k = [CHR 0x27] @ k @ [CHR 0x27]"

subsection \<open>Data\<close>

text \<open>
  A document is the text of a page; the vector index and the conversation chain are
  opaque objects, known by their identity only.
\<close>

type_synonym document = string

datatype vectorstore = FAISS nat

datatype chain = ConversationalRetrievalChain nat

record turn =
  role :: string
  content :: string

text \<open>
  An entry of \<open>sessions\<close>. The key \<open>document_summary\<close> is absent until the summary
  has been generated: \<open>None\<close> is the absent key.
\<close>

record session =
  doc_path :: string
  vectorstore :: vectorstore
  conversation_chain :: chain
  chat_history :: "turn list"
  summary_generated :: bool
  document_summary :: "string option"

text \<open>
  An exception raised on a web socket is a \<open>WebSocketDisconnect\<close> or any other
  exception \<open>e\<close>, kept as \<open>str(e)\<close>: the endpoint tells the two apart. Where a
  handler catches every \<open>Exception\<close> alike, the exception is its message.
\<close>

datatype exn = WebSocketDisconnect | Exception string

type_synonym websocket = nat

datatype ws_call = Accept | SendText string

record app_state =
  sessions :: "string \<rightharpoonup> session"
  active_connections :: "string \<rightharpoonup> websocket"
  files :: "string \<rightharpoonup> string"
  ws_calls :: "(websocket \<times> ws_call \<times> exn option) list"

datatype http_exception = HTTPException nat string

datatype json_response = JSONResponse nat "(string \<times> string) list"

subsection \<open>The upload handler\<close>

text \<open>
  The library calls of \<open>upload_pdf\<close>, in the order of the source. \<open>Inl m\<close> is an
  exception with message \<open>m\<close>. \<open>open_wb\<close> is \<open>open(path, "wb")\<close>;
  \<open>copyfileobj\<close> gives \<open>Some (n, m)\<close> when the copy raises \<open>m\<close> after \<open>n\<close>
  bytes. The constructors that only build client objects (\<open>Ollama\<close>, the splitter,
  the memory, the prompt) belong to the call that first uses them.
\<close>

record upload_env =
  open_wb :: "string \<Rightarrow> string option"
  copyfileobj :: "string \<Rightarrow> (nat \<times> string) option"
  loader_load :: "string \<Rightarrow> string \<Rightarrow> string + document list"
  split_documents :: "document list \<Rightarrow> string + document list"
  from_documents :: "document list \<Rightarrow> string + vectorstore"
  from_llm :: "vectorstore \<Rightarrow> string + chain"
  summary_ainvoke :: "document list \<Rightarrow> string + (string \<rightharpoonup> string)"

text \<open>The body of the \<open>try\<close> block, lines 57 to 103.\<close>

definition upload_pdf_try ::
  "upload_env \<Rightarrow> string \<Rightarrow> string \<Rightarrow> string \<Rightarrow> app_state
    \<Rightarrow> (string + json_response) \<times> app_state" where
  "upload_pdf_try env session_id file_location body st =
     (case open_wb env file_location of
        Some e \<Rightarrow> (Inl e, st)
      | None \<Rightarrow>
        (case copyfileobj env body of
           Some (n, e) \<Rightarrow>
             (Inl e, st\<lparr>files := (files st)(file_location \<mapsto> take n body)\<rparr>)
         | None \<Rightarrow>
           let st1 = st\<lparr>files := (files st)(file_location \<mapsto> body)\<rparr> in
           (case loader_load env file_location body of
              Inl e \<Rightarrow> (Inl e, st1)
            | Inr documents \<Rightarrow>
              (case split_documents env documents of
                 Inl e \<Rightarrow> (Inl e, st1)
               | Inr texts \<Rightarrow>
                 (case from_documents env texts of
                    Inl e \<Rightarrow> (Inl e, st1)
                  | Inr vs \<Rightarrow>
                    (case from_llm env vs of
                       Inl e \<Rightarrow> (Inl e, st1)
                     | Inr cc \<Rightarrow>
                       let entry = \<lparr>doc_path = file_location, vectorstore = vs,
                                    conversation_chain = cc, chat_history = [],
                                    summary_generated = False, document_summary = None\<rparr>;
                           st2 = st1\<lparr>sessions := (sessions st1)(session_id \<mapsto> entry)\<rparr>
                       in
                       (case summary_ainvoke env documents of
                          Inl e \<Rightarrow> (Inl e, st2)
                        | Inr summary_response \<Rightarrow>
                          (case summary_response ''output_text'' of
                             None \<Rightarrow> (Inl (str_KeyError ''output_text''), st2)
                           | Some summary \<Rightarrow>
                             (Inr (JSONResponse 200
                                    [(''message'', ''PDF uploaded and processed successfully!''),
                                     (''session_id'', session_id)]),
                              st2\<lparr>sessions := (sessions st2)(session_id \<mapsto>
                                    entry\<lparr>document_summary := Some summary,
                                          summary_generated := True\<rparr>)\<rparr>)))))))))"

definition file_location_of :: "string \<Rightarrow> string \<Rightarrow> string" where
  "file_location_of session_id token =
     os_path_join UPLOAD_DIR (session_id @ ''_'' @ token @ ''.pdf'')"

text \<open>
  \<open>upload_pdf\<close>: \<open>token\<close> is \<open>str(uuid.uuid4())\<close>. The \<open>except\<close> clause removes
  the file when it exists and raises the 500.
\<close>

definition upload_pdf ::
  "upload_env \<Rightarrow> string \<Rightarrow> string \<Rightarrow> string \<Rightarrow> string \<Rightarrow> app_state
    \<Rightarrow> (http_exception + json_response) \<times> app_state" where
  "upload_pdf env session_id filename body token st =
     (if \<not> endswith filename ''.pdf'' then
        (Inl (HTTPException 400 ''Invalid file type. Only PDF files are allowed.''), st)
      else
        let file_location = file_location_of session_id token in
        (case upload_pdf_try env session_id file_location body st of
           (Inr response, st') \<Rightarrow> (Inr response, st')
         | (Inl e, st') \<Rightarrow>
             (Inl (HTTPException 500 (''Error processing PDF: '' @ e)),
              if file_location \<in> dom (files st')
              then st'\<lparr>files := (files st')(file_location := None)\<rparr>
              else st')))"

subsection \<open>The connection manager\<close>

text \<open>
  The transport and the chain, as the endpoint calls them: \<open>accept\<close> and
  \<open>send_text\<close> give the exception they raise, if any; \<open>ainvoke\<close> gives the chain's
  response dictionary or the message of the exception it raises.
\<close>

record ws_env =
  accept :: "websocket \<Rightarrow> exn option"
  send_text :: "websocket \<Rightarrow> string \<Rightarrow> exn option"
  ainvoke :: "chain \<Rightarrow> string \<Rightarrow> string + (string \<rightharpoonup> string)"

definition greeting :: string where
  "greeting = ''Hello! I've processed your PDF. Here is a summary:''"

definition send_personal_message ::
  "ws_env \<Rightarrow> string \<Rightarrow> string \<Rightarrow> app_state \<Rightarrow> exn option \<times> app_state" where
  "send_personal_message env message session_id st =
     (case active_connections st session_id of
        None \<Rightarrow> (None, st)
      | Some ws \<Rightarrow>
          (send_text env ws message,
           st\<lparr>ws_calls := ws_calls st @ [(ws, SendText message, send_text env ws message)]\<rparr>))"

definition connect ::
  "ws_env \<Rightarrow> websocket \<Rightarrow> string \<Rightarrow> app_state \<Rightarrow> exn option \<times> app_state" where
  "connect env ws session_id st =
     (case accept env ws of
        Some e \<Rightarrow> (Some e, st\<lparr>ws_calls := ws_calls st @ [(ws, Accept, Some e)]\<rparr>)
      | None \<Rightarrow>
        let st1 = st\<lparr>ws_calls := ws_calls st @ [(ws, Accept, None)],
                     active_connections := (active_connections st)(session_id \<mapsto> ws)\<rparr> in
        (case sessions st1 session_id of
           None \<Rightarrow> (None, st1)
         | Some session_data \<Rightarrow>
           (case document_summary session_data of
              None \<Rightarrow> (None, st1)
            | Some summary \<Rightarrow>
              (case send_personal_message env greeting session_id st1 of
                 (Some e, st2) \<Rightarrow> (Some e, st2)
               | (None, st2) \<Rightarrow> send_personal_message env summary session_id st2))))"

definition disconnect :: "string \<Rightarrow> app_state \<Rightarrow> app_state" where
  "disconnect session_id st =
     (if session_id \<in> dom (active_connections st)
      then st\<lparr>active_connections := (active_connections st)(session_id := None)\<rparr>
      else st)"

subsection \<open>The conversation endpoint\<close>

definition no_document_message :: string where
  "no_document_message =
     ''Error: No document uploaded for this session. Please upload a PDF first.''"

text \<open>
  The inner \<open>try\<close>, lines 161 to 165: the answer of the chain, or the error text
  built from the exception. A response without the key \<open>answer\<close> raises a
  \<open>KeyError\<close> inside the same \<open>try\<close>.
\<close>

definition ai_answer :: "ws_env \<Rightarrow> chain \<Rightarrow> string \<Rightarrow> string" where
  "ai_answer env cc user_message =
     (case ainvoke env cc user_message of
        Inl e \<Rightarrow> ''Error getting AI response: '' @ e @ ''. Please try again.''
      | Inr response \<Rightarrow>
          (case response ''answer'' of
             None \<Rightarrow> ''Error getting AI response: '' @ str_KeyError ''answer''
                      @ ''. Please try again.''
           | Some answer \<Rightarrow> answer))"

text \<open>One pass of the loop body, lines 147 to 169, on the text \<open>data\<close> just received.\<close>

definition handle_text ::
  "ws_env \<Rightarrow> string \<Rightarrow> string \<Rightarrow> app_state \<Rightarrow> exn option \<times> app_state" where
  "handle_text env session_id data st =
     (case sessions st session_id of
        None \<Rightarrow> send_personal_message env no_document_message session_id st
      | Some session_data \<Rightarrow>
          let history1 = chat_history session_data @ [\<lparr>role = ''user'', content = data\<rparr>];
              answer = ai_answer env (conversation_chain session_data) data;
              history2 = history1 @ [\<lparr>role = ''ai'', content = answer\<rparr>];
              st1 = st\<lparr>sessions := (sessions st)(session_id \<mapsto>
                           session_data\<lparr>chat_history := history2\<rparr>)\<rparr>
          in send_personal_message env answer session_id st1)"

text \<open>
  What \<open>await websocket.receive_text()\<close> does on each call: it returns a text or
  raises. The loop runs over the inbound events that have arrived; when none is left the
  handler is suspended in \<open>receive_text\<close>.
\<close>

datatype recv = Text string | RecvRaises exn

datatype loop_exit = Awaiting | Raised exn

fun receive_loop ::
  "ws_env \<Rightarrow> string \<Rightarrow> recv list \<Rightarrow> app_state \<Rightarrow> loop_exit \<times> app_state" where
  "receive_loop env session_id [] st = (Awaiting, st)"
| "receive_loop env session_id (Text data # inbound) st =
     (case handle_text env session_id data st of
        (Some e, st') \<Rightarrow> (Raised e, st')
      | (None, st') \<Rightarrow> receive_loop env session_id inbound st')"
| "receive_loop env session_id (RecvRaises e # inbound) st = (Raised e, st)"

datatype handler_end = Suspended | Returned | Propagated exn

definition websocket_endpoint ::
  "ws_env \<Rightarrow> websocket \<Rightarrow> string \<Rightarrow> recv list \<Rightarrow> app_state
    \<Rightarrow> handler_end \<times> app_state" where
  "websocket_endpoint env ws session_id inbound st =
     (case connect env ws session_id st of
        (Some e, st1) \<Rightarrow> (Propagated e, st1)
      | (None, st1) \<Rightarrow>
        (case receive_loop env session_id inbound st1 of
           (Awaiting, st2) \<Rightarrow> (Suspended, st2)
         | (Raised WebSocketDisconnect, st2) \<Rightarrow> (Returned, disconnect session_id st2)
         | (Raised (Exception m), st2) \<Rightarrow>
             (case send_personal_message env
                     (''An unexpected error occurred: '' @ m) session_id st2 of
                (Some e, st3) \<Rightarrow> (Propagated e, st3)
              | (None, st3) \<Rightarrow> (Returned, st3))))"

subsection \<open>Sequences of manager operations\<close>

text \<open>
  The registry is changed by \<open>connect\<close> and \<open>disconnect\<close> only. A sequence of
  these calls, from any handlers, is run in order.
\<close>

datatype manager_op = Connect websocket string | Disconnect string

fun apply_manager_op :: "ws_env \<Rightarrow> manager_op \<Rightarrow> app_state \<Rightarrow> app_state" where
  "apply_manager_op env (Connect ws session_id) st = snd (connect env ws session_id st)"
| "apply_manager_op env (Disconnect session_id) st = disconnect session_id st"

fun run_manager_ops :: "ws_env \<Rightarrow> manager_op list \<Rightarrow> app_state \<Rightarrow> app_state" where
  "run_manager_ops env [] st = st"
| "run_manager_ops env (op # ops) st = run_manager_ops env ops (apply_manager_op env op st)"

subsection \<open>Concrete scenarios\<close>

text \<open>
  Environments and states on which the theorems below are evaluated: an empty state, a
  library that succeeds at every call, and libraries that fail at one.
\<close>

definition st_empty :: app_state where
  "st_empty = \<lparr>sessions = Map.empty, active_connections = Map.empty,
               files = Map.empty, ws_calls = []\<rparr>"

definition env_ok :: upload_env where
  "env_ok = \<lparr>open_wb = (\<lambda>path. None),
             copyfileobj = (\<lambda>bytes. None),
             loader_load = (\<lambda>path bytes. Inr [bytes]),
             split_documents = (\<lambda>documents. Inr documents),
             from_documents = (\<lambda>texts. Inr (FAISS 7)),
             from_llm = (\<lambda>vs. Inr (ConversationalRetrievalChain 3)),
             summary_ainvoke =
               (\<lambda>documents. Inr [''output_text'' \<mapsto> ''A short summary.''])\<rparr>"

definition env_summary_fails :: upload_env where
  "env_summary_fails =
     env_ok\<lparr>summary_ainvoke := (\<lambda>documents. Inl ''model offline'')\<rparr>"

definition env_loader_fails :: upload_env where
  "env_loader_fails = env_ok\<lparr>loader_load := (\<lambda>path bytes. Inl ''not a PDF'')\<rparr>"

definition env_open_fails :: upload_env where
  "env_open_fails = env_ok\<lparr>open_wb := (\<lambda>path. Some ''No space left on device'')\<rparr>"


text \<open>
  A transport and a chain that succeed, a chain that raises, the session an upload of
  \<open>doc.pdf\<close> for \<open>abc\<close> leaves behind, and the state after web socket 1 has
  connected for it.
\<close>

definition ws_ok :: ws_env where
  "ws_ok = \<lparr>accept = (\<lambda>ws. None),
            send_text = (\<lambda>ws message. None),
            ainvoke = (\<lambda>cc question. Inr [''answer'' \<mapsto> ''It is about cats.''])\<rparr>"

definition ws_chain_fails :: ws_env where
  "ws_chain_fails = ws_ok\<lparr>ainvoke := (\<lambda>cc question. Inl ''connection refused'')\<rparr>"

definition session_abc :: session where
  "session_abc = \<lparr>doc_path = ''uploads/abc_0f3a.pdf'', vectorstore = FAISS 7,
                  conversation_chain = ConversationalRetrievalChain 3, chat_history = [],
                  summary_generated = True, document_summary = Some ''A short summary.''\<rparr>"

definition st_abc :: app_state where
  "st_abc = \<lparr>sessions = [''abc'' \<mapsto> session_abc], active_connections = Map.empty,
             files = [''uploads/abc_0f3a.pdf'' \<mapsto> ''%PDF-1.4''], ws_calls = []\<rparr>"

definition st_abc_connected :: app_state where
  "st_abc_connected =
     st_abc\<lparr>active_connections := [''abc'' \<mapsto> 1],
            ws_calls := [(1, Accept, None), (1, SendText greeting, None),
                         (1, SendText ''A short summary.'', None)]\<rparr>"

text \<open>The state after web socket 2 has connected for \<open>xyz\<close>, which has no upload.\<close>

definition st_connected_no_upload :: app_state where
  "st_connected_no_upload =
     st_empty\<lparr>active_connections := [''xyz'' \<mapsto> 2], ws_calls := [(2, Accept, None)]\<rparr>"

text \<open>
  Two tabs on one identifier. While the handler of socket 1 waits in \<open>receive_text\<close>,
  a second socket connects for \<open>abc\<close>; in \<open>st_abc_tab_closed\<close> its peer has closed
  it again, so its handler has run to its end. The same for \<open>xyz\<close>, which has no
  upload, with sockets 2 and 3.
\<close>

definition st_abc_second_tab :: app_state where
  "st_abc_second_tab = snd (connect ws_ok 2 ''abc'' st_abc_connected)"

definition st_abc_tab_closed :: app_state where
  "st_abc_tab_closed =
     snd (websocket_endpoint ws_ok 2 ''abc'' [RecvRaises WebSocketDisconnect] st_abc_connected)"

definition st_xyz_tab_closed :: app_state where
  "st_xyz_tab_closed =
     snd (websocket_endpoint ws_ok 3 ''xyz'' [RecvRaises WebSocketDisconnect]
            st_connected_no_upload)"

section \<open>Properties\<close>

subsection \<open>Upload: the extension check\<close>

text \<open>
  C4. An upload whose file name does not end in \<open>.pdf\<close> is rejected with status 400
  and the state is returned as it was: no file is written and \<open>sessions\<close> is
  untouched. The result does not depend on the environment, so no library call or I/O
  decides it.
\<close>

theorem upload_pdf_rejects_other_extension:
  "\<not> endswith filename ''.pdf'' \<Longrightarrow>
   upload_pdf env session_id filename body token st =
     (Inl (HTTPException 400 ''Invalid file type. Only PDF files are allowed.''), st)"
  by (simp add: upload_pdf_def)

theorem upload_pdf_rejects_other_extension_witness:
  "\<not> endswith ''notes.txt'' ''.pdf'' \<and>
   upload_pdf env_ok ''abc'' ''notes.txt'' ''%PDF-1.4'' ''0f3a'' st_empty =
     (Inl (HTTPException 400 ''Invalid file type. Only PDF files are allowed.''), st_empty)"
  using upload_pdf_rejects_other_extension
          [of "''notes.txt''" env_ok "''abc''" "''%PDF-1.4''" "''0f3a''" st_empty]
  by (simp add: endswith_def)

subsection \<open>Facts about the concrete scenarios\<close>

lemma file_location_abc: "file_location_of ''abc'' ''0f3a'' = ''uploads/abc_0f3a.pdf''"
  by (simp add: file_location_of_def os_path_join_def UPLOAD_DIR_def startswith_def endswith_def)


lemma env_failing_fields:
  "open_wb env_open_fails path = Some ''No space left on device''"
  "open_wb env_loader_fails path = None"
  "copyfileobj env_loader_fails bytes = None"
  "loader_load env_loader_fails path bytes = Inl ''not a PDF''"
  "open_wb env_summary_fails path = None"
  "copyfileobj env_summary_fails bytes = None"
  "loader_load env_summary_fails path bytes = Inr [bytes]"
  "split_documents env_summary_fails documents = Inr documents"
  "from_documents env_summary_fails texts = Inr (FAISS 7)"
  "from_llm env_summary_fails vs = Inr (ConversationalRetrievalChain 3)"
  "summary_ainvoke env_summary_fails documents = Inl ''model offline''"
  by (simp_all add: env_open_fails_def env_loader_fails_def env_summary_fails_def env_ok_def)

lemma endswith_doc_pdf: "endswith ''doc.pdf'' ''.pdf''"
  by (simp add: endswith_def)

subsection \<open>Upload: a failure after the extension check\<close>

text \<open>
  C1, as stated, fails when summary generation raises. The session is registered at line
  77, before the summary is generated at line 96, and the \<open>except\<close> clause removes
  the file only. With a summariser that raises, the upload of \<open>doc.pdf\<close> for
  \<open>abc\<close> on the empty state returns the 500, and \<open>sessions\<close> then holds an entry for
  \<open>abc\<close> that it did not hold before.
\<close>

theorem upload_pdf_summary_failure_keeps_session:
  "fst (upload_pdf env_summary_fails ''abc'' ''doc.pdf'' ''%PDF-1.4'' ''0f3a'' st_empty)
     = Inl (HTTPException 500 ''Error processing PDF: model offline'')
   \<and> sessions st_empty ''abc'' = None
   \<and> sessions (snd (upload_pdf env_summary_fails ''abc'' ''doc.pdf'' ''%PDF-1.4'' ''0f3a'' st_empty)) ''abc''
     = Some \<lparr>doc_path = ''uploads/abc_0f3a.pdf'', vectorstore = FAISS 7,
             conversation_chain = ConversationalRetrievalChain 3, chat_history = [],
             summary_generated = False, document_summary = None\<rparr>"
  by (simp add: upload_pdf_def upload_pdf_try_def env_summary_fails_def env_ok_def st_empty_def
        endswith_def file_location_abc Let_def)

text \<open>
  C1, amended. Let the file name end in \<open>.pdf\<close>. Whichever step of the \<open>try\<close>
  block raises (opening the file, copying the upload into it, loading, splitting,
  building the index, building the chain, generating the summary, reading
  \<open>output_text\<close>), with message \<open>m\<close>, the handler returns the 500 whose detail is
  \<open>Error processing PDF: m\<close>, the uploaded file is not on disk afterwards and every
  other file is as before. When the step that raises comes before the registration of
  line 77 (every step up to building the chain), the state is the one before the request
  but for that file, so \<open>sessions\<close> is unchanged.
\<close>

theorem upload_pdf_failure_cleanup:
  assumes "endswith filename ''.pdf''"
  shows "let loc = file_location_of session_id token;
             run = upload_pdf env session_id filename body token st;
             cleaned = st\<lparr>files := (files st)(loc := None)\<rparr>
         in
           (\<forall>m. open_wb env loc = Some m \<longrightarrow>
              run = (Inl (HTTPException 500 (''Error processing PDF: '' @ m)), cleaned))
         \<and> (open_wb env loc = None \<longrightarrow>
             (\<forall>n m. copyfileobj env body = Some (n, m) \<longrightarrow>
                run = (Inl (HTTPException 500 (''Error processing PDF: '' @ m)), cleaned))
           \<and> (copyfileobj env body = None \<longrightarrow>
               (\<forall>m. loader_load env loc body = Inl m \<longrightarrow>
                  run = (Inl (HTTPException 500 (''Error processing PDF: '' @ m)), cleaned))
             \<and> (\<forall>documents. loader_load env loc body = Inr documents \<longrightarrow>
                 (\<forall>m. split_documents env documents = Inl m \<longrightarrow>
                    run = (Inl (HTTPException 500 (''Error processing PDF: '' @ m)), cleaned))
               \<and> (\<forall>texts. split_documents env documents = Inr texts \<longrightarrow>
                   (\<forall>m. from_documents env texts = Inl m \<longrightarrow>
                      run = (Inl (HTTPException 500 (''Error processing PDF: '' @ m)), cleaned))
                 \<and> (\<forall>vs. from_documents env texts = Inr vs \<longrightarrow>
                     (\<forall>m. from_llm env vs = Inl m \<longrightarrow>
                        run = (Inl (HTTPException 500 (''Error processing PDF: '' @ m)), cleaned))
                   \<and> (\<forall>cc. from_llm env vs = Inr cc \<longrightarrow>
                       (\<forall>m. summary_ainvoke env documents = Inl m \<longrightarrow>
                          fst run = Inl (HTTPException 500 (''Error processing PDF: '' @ m))
                          \<and> files (snd run) = (files st)(loc := None))
                     \<and> (\<forall>response. summary_ainvoke env documents = Inr response
                                     \<and> response ''output_text'' = None \<longrightarrow>
                          fst run = Inl (HTTPException 500
                                     (''Error processing PDF: '' @ str_KeyError ''output_text''))
                          \<and> files (snd run) = (files st)(loc := None))))))))"
  using assms
  unfolding upload_pdf_def upload_pdf_try_def Let_def
  by (auto simp: fun_upd_idem domIff)

theorem upload_pdf_failure_cleanup_witness:
  "endswith ''doc.pdf'' ''.pdf''
   \<and> upload_pdf env_open_fails ''abc'' ''doc.pdf'' ''%PDF-1.4'' ''0f3a'' st_empty
       = (Inl (HTTPException 500 ''Error processing PDF: No space left on device''),
          st_empty\<lparr>files := (files st_empty)(''uploads/abc_0f3a.pdf'' := None)\<rparr>)
   \<and> upload_pdf env_loader_fails ''abc'' ''doc.pdf'' ''%PDF-1.4'' ''0f3a'' st_empty
       = (Inl (HTTPException 500 ''Error processing PDF: not a PDF''),
          st_empty\<lparr>files := (files st_empty)(''uploads/abc_0f3a.pdf'' := None)\<rparr>)
   \<and> fst (upload_pdf env_summary_fails ''abc'' ''doc.pdf'' ''%PDF-1.4'' ''0f3a'' st_empty)
       = Inl (HTTPException 500 ''Error processing PDF: model offline'')
   \<and> files (snd (upload_pdf env_summary_fails ''abc'' ''doc.pdf'' ''%PDF-1.4'' ''0f3a'' st_empty))
       = (files st_empty)(''uploads/abc_0f3a.pdf'' := None)"
proof -
  note O = upload_pdf_failure_cleanup
             [OF endswith_doc_pdf, where session_id = "''abc''" and token = "''0f3a''"
               and env = env_open_fails and body = "''%PDF-1.4''" and st = st_empty]
  note L = upload_pdf_failure_cleanup
             [OF endswith_doc_pdf, where session_id = "''abc''" and token = "''0f3a''"
               and env = env_loader_fails and body = "''%PDF-1.4''" and st = st_empty]
  note S = upload_pdf_failure_cleanup
             [OF endswith_doc_pdf, where session_id = "''abc''" and token = "''0f3a''"
               and env = env_summary_fails and body = "''%PDF-1.4''" and st = st_empty]
  have o: "upload_pdf env_open_fails ''abc'' ''doc.pdf'' ''%PDF-1.4'' ''0f3a'' st_empty
       = (Inl (HTTPException 500 ''Error processing PDF: No space left on device''),
          st_empty\<lparr>files := (files st_empty)(''uploads/abc_0f3a.pdf'' := None)\<rparr>)"
    using O by (simp add: Let_def file_location_abc env_failing_fields)
  have l: "upload_pdf env_loader_fails ''abc'' ''doc.pdf'' ''%PDF-1.4'' ''0f3a'' st_empty
       = (Inl (HTTPException 500 ''Error processing PDF: not a PDF''),
          st_empty\<lparr>files := (files st_empty)(''uploads/abc_0f3a.pdf'' := None)\<rparr>)"
    using L by (simp add: Let_def file_location_abc env_failing_fields)
  have s: "fst (upload_pdf env_summary_fails ''abc'' ''doc.pdf'' ''%PDF-1.4'' ''0f3a'' st_empty)
       = Inl (HTTPException 500 ''Error processing PDF: model offline'')
   \<and> files (snd (upload_pdf env_summary_fails ''abc'' ''doc.pdf'' ''%PDF-1.4'' ''0f3a'' st_empty))
       = (files st_empty)(''uploads/abc_0f3a.pdf'' := None)"
    using S by (simp add: Let_def file_location_abc env_failing_fields)
  show ?thesis
    using endswith_doc_pdf o l s by (intro conjI) simp_all
qed

text \<open>
  Conversely, every error the handler returns for a \<open>.pdf\<close> name is such a 500, with
  the file removed.
\<close>

lemma upload_pdf_error_result:
  assumes "endswith filename ''.pdf''"
    and "upload_pdf env session_id filename body token st = (Inl err, st')"
  shows "(\<exists>m. err = HTTPException 500 (''Error processing PDF: '' @ m))
       \<and> files st' (file_location_of session_id token) = None
       \<and> (\<forall>path. path \<noteq> file_location_of session_id token \<longrightarrow> files st' path = files st path)
       \<and> ((\<forall>documents texts vs cc.
              \<not> (open_wb env (file_location_of session_id token) = None
                 \<and> copyfileobj env body = None
                 \<and> loader_load env (file_location_of session_id token) body = Inr documents
                 \<and> split_documents env documents = Inr texts
                 \<and> from_documents env texts = Inr vs
                 \<and> from_llm env vs = Inr cc))
            \<longrightarrow> sessions st' = sessions st)"
  using assms
  unfolding upload_pdf_def upload_pdf_try_def Let_def
  by (auto split: option.splits sum.splits prod.splits if_splits)

subsection \<open>Upload: success\<close>




subsection \<open>The manager and the loop: what they leave alone\<close>

lemma send_personal_message_frame:
  "sessions (snd (send_personal_message env message session_id st)) = sessions st"
  "active_connections (snd (send_personal_message env message session_id st)) = active_connections st"
  "files (snd (send_personal_message env message session_id st)) = files st"
  by (simp_all add: send_personal_message_def split: option.splits)

lemma send_personal_message_registered:
  "active_connections st session_id = Some ws \<Longrightarrow>
   send_personal_message env message session_id st =
     (send_text env ws message,
      st\<lparr>ws_calls := ws_calls st @ [(ws, SendText message, send_text env ws message)]\<rparr>)"
  by (simp add: send_personal_message_def)

lemma send_personal_message_unregistered:
  "active_connections st session_id = None \<Longrightarrow>
   send_personal_message env message session_id st = (None, st)"
  by (simp add: send_personal_message_def)

lemma handle_text_registry:
  "active_connections (snd (handle_text env session_id data st)) = active_connections st"
  by (simp add: handle_text_def Let_def send_personal_message_frame split: option.splits)

lemma receive_loop_registry:
  "active_connections (snd (receive_loop env session_id inbound st)) = active_connections st"
proof (induction inbound arbitrary: st)
  case Nil
  then show ?case by simp
next
  case (Cons ev inbound)
  show ?case
  proof (cases ev)
    case (Text data)
    obtain r st' where h: "handle_text env session_id data st = (r, st')"
      by (cases "handle_text env session_id data st")
    have reg: "active_connections st' = active_connections st"
      using handle_text_registry [of env session_id data st] h by simp
    show ?thesis
    proof (cases r)
      case None
      with Text h Cons.IH [of st'] reg show ?thesis by simp
    next
      case (Some e)
      with Text h reg show ?thesis by simp
    qed
  next
    case (RecvRaises e)
    then show ?thesis by simp
  qed
qed

lemma connect_registers:
  "accept env ws = None \<Longrightarrow>
   active_connections (snd (connect env ws session_id st)) =
     (active_connections st)(session_id \<mapsto> ws)"
  by (simp add: connect_def Let_def send_personal_message_def split: option.splits prod.splits)

lemma receive_loop_continues:
  "handle_text env session_id data st = (None, st') \<Longrightarrow>
   receive_loop env session_id (Text data # inbound) st = receive_loop env session_id inbound st'"
  by simp

lemma ws_ok_fields:
  "accept ws_ok ws = None"
  "send_text ws_ok ws message = None"
  "ainvoke ws_ok cc question = Inr [''answer'' \<mapsto> ''It is about cats.'']"
  "accept ws_chain_fails ws = None"
  "send_text ws_chain_fails ws message = None"
  "ainvoke ws_chain_fails cc question = Inl ''connection refused''"
  by (simp_all add: ws_ok_def ws_chain_fails_def)

lemma st_abc_connected_fields:
  "sessions st_abc_connected ''abc'' = Some session_abc"
  "active_connections st_abc_connected ''abc'' = Some 1"
  by (simp_all add: st_abc_connected_def st_abc_def)

text \<open>
  The scenario states are reached by the handlers themselves: by the upload of
  \<open>doc.pdf\<close> for \<open>abc\<close>, and by a connect on the state it leaves.
\<close>

lemma st_abc_reached:
  "upload_pdf env_ok ''abc'' ''doc.pdf'' ''%PDF-1.4'' ''0f3a'' st_empty =
     (Inr (JSONResponse 200
            [(''message'', ''PDF uploaded and processed successfully!''),
             (''session_id'', ''abc'')]),
      st_abc)"
  by (simp add: upload_pdf_def upload_pdf_try_def env_ok_def st_empty_def st_abc_def
        session_abc_def endswith_def file_location_abc Let_def)

lemma st_abc_connected_reached:
  "connect ws_ok 1 ''abc'' st_abc = (None, st_abc_connected)"
  by (simp add: connect_def send_personal_message_def ws_ok_def st_abc_def st_abc_connected_def
        session_abc_def Let_def)

lemma st_connected_no_upload_reached:
  "connect ws_ok 2 ''xyz'' st_empty = (None, st_connected_no_upload)"
  by (simp add: connect_def ws_ok_def st_empty_def st_connected_no_upload_def Let_def)

text \<open>
  A handler's own socket: \<open>connect\<close> registers it under the identifier and the loop
  never changes the registry, so it is the registered one at every pass of the loop.
\<close>

lemma own_socket_stays_registered:
  assumes "connect env ws session_id st = (None, st1)"
  shows "active_connections (snd (receive_loop env session_id inbound st1)) session_id = Some ws"
proof -
  have "accept env ws = None"
    using assms by (auto simp: connect_def split: option.splits)
  from connect_registers [OF this, of session_id st] assms
  have "active_connections st1 session_id = Some ws"
    by simp
  then show ?thesis
    by (simp add: receive_loop_registry)
qed

text \<open>
  The two-tab states. The handler of the first socket is suspended in
  \<open>receive_text\<close> in the state its connect left; the second socket's connect takes
  the registry entry, and its disconnect removes the entry altogether.
\<close>

lemma first_handler_suspended:
  "websocket_endpoint ws_ok 1 ''abc'' [] st_abc = (Suspended, st_abc_connected)"
  "websocket_endpoint ws_ok 2 ''xyz'' [] st_empty = (Suspended, st_connected_no_upload)"
  using st_abc_connected_reached st_connected_no_upload_reached
  by (simp_all add: websocket_endpoint_def)

lemma st_abc_second_tab_fields:
  "sessions st_abc_second_tab ''abc'' = Some session_abc"
  "active_connections st_abc_second_tab ''abc'' = Some 2"
  by (simp_all add: st_abc_second_tab_def connect_def send_personal_message_def Let_def
        ws_ok_fields st_abc_connected_def st_abc_def session_abc_def)

lemma st_abc_tab_closed_fields:
  "sessions st_abc_tab_closed ''abc'' = Some session_abc"
  "active_connections st_abc_tab_closed ''abc'' = None"
  by (simp_all add: st_abc_tab_closed_def websocket_endpoint_def connect_def
        send_personal_message_def disconnect_def Let_def ws_ok_fields
        st_abc_connected_def st_abc_def session_abc_def)

lemma st_xyz_tab_closed_fields:
  "sessions st_xyz_tab_closed ''xyz'' = None"
  "active_connections st_xyz_tab_closed ''xyz'' = None"
  by (simp_all add: st_xyz_tab_closed_def websocket_endpoint_def connect_def
        send_personal_message_def disconnect_def Let_def ws_ok_fields
        st_connected_no_upload_def st_empty_def)

lemma handle_text_nothing_registered:
  "active_connections st session_id = None \<Longrightarrow>
   fst (handle_text env session_id data st) = None
   \<and> ws_calls (snd (handle_text env session_id data st)) = ws_calls st"
  by (simp add: handle_text_def Let_def send_personal_message_def split: option.splits)

lemma ai_answer_scenarios:
  "ai_answer ws_chain_fails cc question =
     ''Error getting AI response: connection refused. Please try again.''"
  "ai_answer ws_ok cc question = ''It is about cats.''"
  by (simp_all add: ai_answer_def ws_ok_fields)

subsection \<open>The endpoint: a question for a registered session\<close>

text \<open>
  C2, as stated, fails on where the answer goes. The loop body never uses its own
  socket: it hands the answer to \<open>manager.send_personal_message\<close>, which sends to the
  socket registered for the identifier and does nothing when there is none. While the
  handler of socket 1 waits for a question, a second tab connects for \<open>abc\<close> and is
  closed again, which removes the registry entry. The question then received on socket
  1 is processed and both turns are appended, but no \<open>send_text\<close> call is made: the
  error text is sent to no connection. With the second tab still open the text goes to
  socket 2, not to the asking socket 1.
\<close>

theorem handle_text_answer_not_sent:
  "sessions st_abc_tab_closed ''abc'' = Some session_abc
   \<and> sessions (snd (handle_text ws_chain_fails ''abc'' ''What is this about?''
                       st_abc_tab_closed)) ''abc''
      = Some (session_abc\<lparr>chat_history :=
          [\<lparr>role = ''user'', content = ''What is this about?''\<rparr>,
           \<lparr>role = ''ai'', content =
              ''Error getting AI response: connection refused. Please try again.''\<rparr>]\<rparr>)
   \<and> ws_calls (snd (handle_text ws_chain_fails ''abc'' ''What is this about?''
                        st_abc_tab_closed))
      = ws_calls st_abc_tab_closed
   \<and> ws_calls (snd (handle_text ws_chain_fails ''abc'' ''What is this about?''
                        st_abc_second_tab))
      = ws_calls st_abc_second_tab @
          [(2, SendText ''Error getting AI response: connection refused. Please try again.'',
            None)]"
proof -
  have hist: "chat_history session_abc = []"
    by (simp add: session_abc_def)
  have a: "sessions (snd (handle_text ws_chain_fails ''abc'' ''What is this about?''
                       st_abc_tab_closed)) ''abc''
      = Some (session_abc\<lparr>chat_history :=
          [\<lparr>role = ''user'', content = ''What is this about?''\<rparr>,
           \<lparr>role = ''ai'', content =
              ''Error getting AI response: connection refused. Please try again.''\<rparr>]\<rparr>)"
    by (simp add: handle_text_def Let_def send_personal_message_frame
          st_abc_tab_closed_fields ai_answer_scenarios hist)
  have b: "ws_calls (snd (handle_text ws_chain_fails ''abc'' ''What is this about?''
                        st_abc_tab_closed))
      = ws_calls st_abc_tab_closed"
    using handle_text_nothing_registered [OF st_abc_tab_closed_fields(2)] by simp
  have c: "ws_calls (snd (handle_text ws_chain_fails ''abc'' ''What is this about?''
                        st_abc_second_tab))
      = ws_calls st_abc_second_tab @
          [(2, SendText ''Error getting AI response: connection refused. Please try again.'',
            None)]"
    by (simp add: handle_text_def Let_def send_personal_message_def
          st_abc_second_tab_fields ai_answer_scenarios ws_ok_fields)
  show ?thesis
    using st_abc_tab_closed_fields(1) a b c by (intro conjI)
qed

text \<open>
  C2, amended. For a session that is in \<open>sessions\<close>, one pass of the loop on the
  question appends exactly two turns to its chat history, the user's question and then
  the ai's answer, whatever the chain does. When the chain raises with message \<open>m\<close>
  the answer is \<open>Error getting AI response: m. Please try again.\<close>; when it returns,
  the answer is the response's \<open>answer\<close>. That same string is handed to the manager.
  When a socket is registered for the identifier, the one call made is the
  \<open>send_text\<close> of that string on the registered socket, and when it does not raise
  the loop goes on to the next inbound message. When no socket is registered, no call is
  made, nothing is raised and the loop goes on as well.
\<close>

theorem handle_text_appends_two_turns:
  assumes "sessions st session_id = Some session_data"
  shows "sessions (snd (handle_text env session_id question st)) session_id =
         Some (session_data\<lparr>chat_history := chat_history session_data @
                 [\<lparr>role = ''user'', content = question\<rparr>,
                  \<lparr>role = ''ai'',
                   content = ai_answer env (conversation_chain session_data) question\<rparr>]\<rparr>)
    \<and> (\<forall>m. ainvoke env (conversation_chain session_data) question = Inl m \<longrightarrow>
            ai_answer env (conversation_chain session_data) question =
              ''Error getting AI response: '' @ m @ ''. Please try again.'')
    \<and> (\<forall>response answer.
            ainvoke env (conversation_chain session_data) question = Inr response
            \<and> response ''answer'' = Some answer \<longrightarrow>
            ai_answer env (conversation_chain session_data) question = answer)
    \<and> (\<forall>response.
            ainvoke env (conversation_chain session_data) question = Inr response
            \<and> response ''answer'' = None \<longrightarrow>
            ai_answer env (conversation_chain session_data) question =
              ''Error getting AI response: '' @ str_KeyError ''answer''
              @ ''. Please try again.'')
    \<and> (\<forall>ws. active_connections st session_id = Some ws \<longrightarrow>
            ws_calls (snd (handle_text env session_id question st)) =
              ws_calls st @
                [(ws, SendText (ai_answer env (conversation_chain session_data) question),
                  send_text env ws (ai_answer env (conversation_chain session_data) question))]
          \<and> fst (handle_text env session_id question st) =
              send_text env ws (ai_answer env (conversation_chain session_data) question)
          \<and> (send_text env ws (ai_answer env (conversation_chain session_data) question) = None \<longrightarrow>
               (\<forall>inbound. receive_loop env session_id (Text question # inbound) st =
                   receive_loop env session_id inbound
                     (snd (handle_text env session_id question st)))))
    \<and> (active_connections st session_id = None \<longrightarrow>
            ws_calls (snd (handle_text env session_id question st)) = ws_calls st
          \<and> fst (handle_text env session_id question st) = None
          \<and> (\<forall>inbound. receive_loop env session_id (Text question # inbound) st =
                   receive_loop env session_id inbound
                     (snd (handle_text env session_id question st))))"
proof -
  let ?answer = "ai_answer env (conversation_chain session_data) question"
  define st1 where "st1 = st\<lparr>sessions := (sessions st)(session_id \<mapsto>
       session_data\<lparr>chat_history := chat_history session_data @
          [\<lparr>role = ''user'', content = question\<rparr>, \<lparr>role = ''ai'', content = ?answer\<rparr>]\<rparr>)\<rparr>"
  have h: "handle_text env session_id question st =
             send_personal_message env ?answer session_id st1"
    using assms by (simp add: handle_text_def Let_def st1_def)
  have a: "\<forall>m. ainvoke env (conversation_chain session_data) question = Inl m \<longrightarrow>
            ?answer = ''Error getting AI response: '' @ m @ ''. Please try again.''"
    by (simp add: ai_answer_def)
  have b: "\<forall>response answer.
            ainvoke env (conversation_chain session_data) question = Inr response
            \<and> response ''answer'' = Some answer \<longrightarrow> ?answer = answer"
    by (simp add: ai_answer_def)
  have b': "\<forall>response.
            ainvoke env (conversation_chain session_data) question = Inr response
            \<and> response ''answer'' = None \<longrightarrow>
            ?answer = ''Error getting AI response: '' @ str_KeyError ''answer''
                      @ ''. Please try again.''"
    by (simp add: ai_answer_def)
  have c: "sessions (snd (handle_text env session_id question st)) session_id =
         Some (session_data\<lparr>chat_history := chat_history session_data @
                 [\<lparr>role = ''user'', content = question\<rparr>,
                  \<lparr>role = ''ai'', content = ?answer\<rparr>]\<rparr>)"
    by (simp add: h send_personal_message_frame st1_def)
  have d: "\<forall>ws. active_connections st session_id = Some ws \<longrightarrow>
            ws_calls (snd (handle_text env session_id question st)) =
              ws_calls st @ [(ws, SendText ?answer, send_text env ws ?answer)]
          \<and> fst (handle_text env session_id question st) = send_text env ws ?answer
          \<and> (send_text env ws ?answer = None \<longrightarrow>
               (\<forall>inbound. receive_loop env session_id (Text question # inbound) st =
                   receive_loop env session_id inbound
                     (snd (handle_text env session_id question st))))"
  proof (intro allI impI)
    fix ws
    assume reg: "active_connections st session_id = Some ws"
    then have "active_connections st1 session_id = Some ws"
      by (simp add: st1_def)
    from send_personal_message_registered [OF this, of env ?answer]
    have s: "handle_text env session_id question st =
          (send_text env ws ?answer,
           st1\<lparr>ws_calls := ws_calls st1 @ [(ws, SendText ?answer, send_text env ws ?answer)]\<rparr>)"
      by (simp add: h)
    show "ws_calls (snd (handle_text env session_id question st)) =
              ws_calls st @ [(ws, SendText ?answer, send_text env ws ?answer)]
          \<and> fst (handle_text env session_id question st) = send_text env ws ?answer
          \<and> (send_text env ws ?answer = None \<longrightarrow>
               (\<forall>inbound. receive_loop env session_id (Text question # inbound) st =
                   receive_loop env session_id inbound
                     (snd (handle_text env session_id question st))))"
      by (simp add: s st1_def)
  qed
  have e: "active_connections st session_id = None \<longrightarrow>
            ws_calls (snd (handle_text env session_id question st)) = ws_calls st
          \<and> fst (handle_text env session_id question st) = None
          \<and> (\<forall>inbound. receive_loop env session_id (Text question # inbound) st =
                   receive_loop env session_id inbound
                     (snd (handle_text env session_id question st)))"
  proof
    assume none: "active_connections st session_id = None"
    then have "active_connections st1 session_id = None"
      by (simp add: st1_def)
    from send_personal_message_unregistered [OF this, of env ?answer]
    have s: "handle_text env session_id question st = (None, st1)"
      by (simp add: h)
    show "ws_calls (snd (handle_text env session_id question st)) = ws_calls st
          \<and> fst (handle_text env session_id question st) = None
          \<and> (\<forall>inbound. receive_loop env session_id (Text question # inbound) st =
                   receive_loop env session_id inbound
                     (snd (handle_text env session_id question st)))"
      by (simp add: s st1_def)
  qed
  show ?thesis
    using c a b b' d e by (intro conjI)
qed

theorem handle_text_appends_two_turns_witness:
  "sessions st_abc_connected ''abc'' = Some session_abc
   \<and> sessions (snd (handle_text ws_chain_fails ''abc'' ''What is this about?'' st_abc_connected)) ''abc''
      = Some (session_abc\<lparr>chat_history :=
          [\<lparr>role = ''user'', content = ''What is this about?''\<rparr>,
           \<lparr>role = ''ai'', content =
              ''Error getting AI response: connection refused. Please try again.''\<rparr>]\<rparr>)
   \<and> ws_calls (snd (handle_text ws_chain_fails ''abc'' ''What is this about?'' st_abc_connected))
      = ws_calls st_abc_connected @
          [(1, SendText ''Error getting AI response: connection refused. Please try again.'', None)]
   \<and> fst (handle_text ws_chain_fails ''abc'' ''What is this about?'' st_abc_connected) = None
   \<and> receive_loop ws_chain_fails ''abc'' [Text ''What is this about?''] st_abc_connected
      = (Awaiting, snd (handle_text ws_chain_fails ''abc'' ''What is this about?'' st_abc_connected))
   \<and> sessions (snd (handle_text ws_ok ''abc'' ''What is this about?'' st_abc_connected)) ''abc''
      = Some (session_abc\<lparr>chat_history :=
          [\<lparr>role = ''user'', content = ''What is this about?''\<rparr>,
           \<lparr>role = ''ai'', content = ''It is about cats.''\<rparr>]\<rparr>)
   \<and> active_connections st_abc_tab_closed ''abc'' = None
   \<and> ws_calls (snd (handle_text ws_ok ''abc'' ''What is this about?'' st_abc_tab_closed))
      = ws_calls st_abc_tab_closed
   \<and> receive_loop ws_ok ''abc'' [Text ''What is this about?''] st_abc_tab_closed
      = (Awaiting, snd (handle_text ws_ok ''abc'' ''What is this about?'' st_abc_tab_closed))
   \<and> active_connections st_abc_second_tab ''abc'' = Some 2
   \<and> ws_calls (snd (handle_text ws_ok ''abc'' ''What is this about?'' st_abc_second_tab))
      = ws_calls st_abc_second_tab @ [(2, SendText ''It is about cats.'', None)]"
proof -
  note F = handle_text_appends_two_turns
             [OF st_abc_connected_fields(1), of ws_chain_fails "''What is this about?''"]
  note G = handle_text_appends_two_turns
             [OF st_abc_connected_fields(1), of ws_ok "''What is this about?''"]
  have hist: "chat_history session_abc = []"
    by (simp add: session_abc_def)
  have f1: "sessions (snd (handle_text ws_chain_fails ''abc'' ''What is this about?'' st_abc_connected)) ''abc''
      = Some (session_abc\<lparr>chat_history :=
          [\<lparr>role = ''user'', content = ''What is this about?''\<rparr>,
           \<lparr>role = ''ai'', content =
              ''Error getting AI response: connection refused. Please try again.''\<rparr>]\<rparr>)"
    using F by (simp add: ai_answer_scenarios hist)
  have f2: "ws_calls (snd (handle_text ws_chain_fails ''abc'' ''What is this about?'' st_abc_connected))
      = ws_calls st_abc_connected @
          [(1, SendText ''Error getting AI response: connection refused. Please try again.'', None)]"
    using F st_abc_connected_fields(2) by (simp add: ai_answer_scenarios ws_ok_fields)
  have f3: "fst (handle_text ws_chain_fails ''abc'' ''What is this about?'' st_abc_connected) = None"
    using F st_abc_connected_fields(2) by (simp add: ai_answer_scenarios ws_ok_fields)
  have f4: "receive_loop ws_chain_fails ''abc'' [Text ''What is this about?''] st_abc_connected
      = (Awaiting, snd (handle_text ws_chain_fails ''abc'' ''What is this about?'' st_abc_connected))"
    using F st_abc_connected_fields(2) by (simp add: ai_answer_scenarios ws_ok_fields)
  have g1: "sessions (snd (handle_text ws_ok ''abc'' ''What is this about?'' st_abc_connected)) ''abc''
      = Some (session_abc\<lparr>chat_history :=
          [\<lparr>role = ''user'', content = ''What is this about?''\<rparr>,
           \<lparr>role = ''ai'', content = ''It is about cats.''\<rparr>]\<rparr>)"
    using G by (simp add: ai_answer_scenarios hist)
  note H = handle_text_appends_two_turns
             [OF st_abc_tab_closed_fields(1), of ws_ok "''What is this about?''"]
  note K = handle_text_appends_two_turns
             [OF st_abc_second_tab_fields(1), of ws_ok "''What is this about?''"]
  have h1: "ws_calls (snd (handle_text ws_ok ''abc'' ''What is this about?'' st_abc_tab_closed))
      = ws_calls st_abc_tab_closed"
    using H st_abc_tab_closed_fields(2) by simp
  have h2: "receive_loop ws_ok ''abc'' [Text ''What is this about?''] st_abc_tab_closed
      = (Awaiting, snd (handle_text ws_ok ''abc'' ''What is this about?'' st_abc_tab_closed))"
    using H st_abc_tab_closed_fields(2) by simp
  have k1: "ws_calls (snd (handle_text ws_ok ''abc'' ''What is this about?'' st_abc_second_tab))
      = ws_calls st_abc_second_tab @ [(2, SendText ''It is about cats.'', None)]"
    using K st_abc_second_tab_fields(2) by (simp add: ai_answer_scenarios ws_ok_fields)
  show ?thesis
    using st_abc_connected_fields(1) f1 f2 f3 f4 g1 st_abc_tab_closed_fields(2) h1 h2
      st_abc_second_tab_fields(2) k1
    by (intro conjI)
qed

subsection \<open>The endpoint: a question for a session that is not registered\<close>

text \<open>
  C7, as stated, fails on where the fixed text goes, for the same reason as C2. While
  the handler of socket 2 waits for a message for \<open>xyz\<close>, which has no upload, socket
  3 connects for \<open>xyz\<close> and is closed again, which removes the registry entry. The
  message then received on socket 2 leaves \<open>sessions\<close> as it was, but no
  \<open>send_text\<close> call is made: the fixed text is sent to no connection.
\<close>

theorem handle_text_without_session_not_sent:
  "sessions st_xyz_tab_closed ''xyz'' = None
   \<and> fst (handle_text ws_ok ''xyz'' ''hello'' st_xyz_tab_closed) = None
   \<and> ws_calls (snd (handle_text ws_ok ''xyz'' ''hello'' st_xyz_tab_closed))
      = ws_calls st_xyz_tab_closed"
  using st_xyz_tab_closed_fields(1)
        handle_text_nothing_registered [OF st_xyz_tab_closed_fields(2), of ws_ok "''hello''"]
  by simp

text \<open>
  C7, amended. When \<open>sessions\<close> has no entry for the identifier, one pass of the loop
  leaves \<open>sessions\<close>, the registry and the files as they were. The fixed text
  \<open>Error: No document uploaded for this session. Please upload a PDF first.\<close> is
  handed to the manager. When a socket is registered for the identifier, the one call
  made is the \<open>send_text\<close> of that text on the registered socket, and when it does
  not raise the loop goes on to the next inbound message, so the connection is not
  closed. When no socket is registered, no call is made, nothing is raised and the loop
  goes on as well.
\<close>

theorem handle_text_without_session:
  assumes "sessions st session_id = None"
  shows "sessions (snd (handle_text env session_id data st)) = sessions st
    \<and> active_connections (snd (handle_text env session_id data st)) = active_connections st
    \<and> files (snd (handle_text env session_id data st)) = files st
    \<and> (\<forall>ws. active_connections st session_id = Some ws \<longrightarrow>
            ws_calls (snd (handle_text env session_id data st)) =
              ws_calls st @
                [(ws, SendText no_document_message, send_text env ws no_document_message)]
          \<and> fst (handle_text env session_id data st) = send_text env ws no_document_message
          \<and> (send_text env ws no_document_message = None \<longrightarrow>
               (\<forall>inbound. receive_loop env session_id (Text data # inbound) st =
                   receive_loop env session_id inbound
                     (snd (handle_text env session_id data st)))))
    \<and> (active_connections st session_id = None \<longrightarrow>
            ws_calls (snd (handle_text env session_id data st)) = ws_calls st
          \<and> fst (handle_text env session_id data st) = None
          \<and> (\<forall>inbound. receive_loop env session_id (Text data # inbound) st =
                   receive_loop env session_id inbound
                     (snd (handle_text env session_id data st))))"
proof -
  have h: "handle_text env session_id data st =
             send_personal_message env no_document_message session_id st"
    using assms by (simp add: handle_text_def)
  have frame: "sessions (snd (handle_text env session_id data st)) = sessions st"
      "active_connections (snd (handle_text env session_id data st)) = active_connections st"
      "files (snd (handle_text env session_id data st)) = files st"
    by (simp_all add: h send_personal_message_frame)
  have send: "\<forall>ws. active_connections st session_id = Some ws \<longrightarrow>
            ws_calls (snd (handle_text env session_id data st)) =
              ws_calls st @
                [(ws, SendText no_document_message, send_text env ws no_document_message)]
          \<and> fst (handle_text env session_id data st) = send_text env ws no_document_message
          \<and> (send_text env ws no_document_message = None \<longrightarrow>
               (\<forall>inbound. receive_loop env session_id (Text data # inbound) st =
                   receive_loop env session_id inbound
                     (snd (handle_text env session_id data st))))"
    by (simp add: h send_personal_message_registered)
  have drop: "active_connections st session_id = None \<longrightarrow>
            ws_calls (snd (handle_text env session_id data st)) = ws_calls st
          \<and> fst (handle_text env session_id data st) = None
          \<and> (\<forall>inbound. receive_loop env session_id (Text data # inbound) st =
                   receive_loop env session_id inbound
                     (snd (handle_text env session_id data st)))"
    by (simp add: h send_personal_message_unregistered)
  show ?thesis
    using frame send drop by (intro conjI)
qed

theorem handle_text_without_session_witness:
  "sessions st_connected_no_upload ''xyz'' = None
   \<and> sessions (snd (handle_text ws_ok ''xyz'' ''hello'' st_connected_no_upload))
       = sessions st_connected_no_upload
   \<and> ws_calls (snd (handle_text ws_ok ''xyz'' ''hello'' st_connected_no_upload))
       = [(2, Accept, None),
          (2, SendText
                ''Error: No document uploaded for this session. Please upload a PDF first.'',
           None)]
   \<and> receive_loop ws_ok ''xyz'' [Text ''hello''] st_connected_no_upload
       = (Awaiting, snd (handle_text ws_ok ''xyz'' ''hello'' st_connected_no_upload))
   \<and> sessions st_xyz_tab_closed ''xyz'' = None
   \<and> active_connections st_xyz_tab_closed ''xyz'' = None
   \<and> sessions (snd (handle_text ws_ok ''xyz'' ''again'' st_xyz_tab_closed))
       = sessions st_xyz_tab_closed
   \<and> receive_loop ws_ok ''xyz'' [Text ''again''] st_xyz_tab_closed
       = (Awaiting, snd (handle_text ws_ok ''xyz'' ''again'' st_xyz_tab_closed))"
proof -
  have none: "sessions st_connected_no_upload ''xyz'' = None"
    by (simp add: st_connected_no_upload_def st_empty_def)
  have reg: "active_connections st_connected_no_upload ''xyz'' = Some 2"
    by (simp add: st_connected_no_upload_def)
  have calls: "ws_calls st_connected_no_upload = [(2, Accept, None)]"
    by (simp add: st_connected_no_upload_def)
  note F = handle_text_without_session [OF none, of ws_ok "''hello''"]
  have f1: "sessions (snd (handle_text ws_ok ''xyz'' ''hello'' st_connected_no_upload))
       = sessions st_connected_no_upload"
    using F by simp
  have f2: "ws_calls (snd (handle_text ws_ok ''xyz'' ''hello'' st_connected_no_upload))
       = [(2, Accept, None),
          (2, SendText
                ''Error: No document uploaded for this session. Please upload a PDF first.'',
           None)]"
    using F reg by (simp add: calls ws_ok_fields no_document_message_def)
  have f3: "receive_loop ws_ok ''xyz'' [Text ''hello''] st_connected_no_upload
       = (Awaiting, snd (handle_text ws_ok ''xyz'' ''hello'' st_connected_no_upload))"
    using F reg by (simp add: ws_ok_fields)
  note G = handle_text_without_session [OF st_xyz_tab_closed_fields(1), of ws_ok "''again''"]
  have g1: "sessions (snd (handle_text ws_ok ''xyz'' ''again'' st_xyz_tab_closed))
       = sessions st_xyz_tab_closed"
    using G by simp
  have g2: "receive_loop ws_ok ''xyz'' [Text ''again''] st_xyz_tab_closed
       = (Awaiting, snd (handle_text ws_ok ''xyz'' ''again'' st_xyz_tab_closed))"
    using G st_xyz_tab_closed_fields(2) by simp
  show ?thesis
    using none f1 f2 f3 st_xyz_tab_closed_fields g1 g2 by (intro conjI)
qed

subsection \<open>The endpoint: what a question changes\<close>

text \<open>
  C10. For a session that is in \<open>sessions\<close>, one pass of the loop on a question
  changes, in the whole state, only the chat history of that session's entry (and the
  log of socket calls): the entry's \<open>doc_path\<close>, \<open>vectorstore\<close>,
  \<open>conversation_chain\<close>, \<open>document_summary\<close> and \<open>summary_generated\<close> are as
  before, so is the entry of every other identifier, so is the registry of the
  connection manager, and so are the files. This holds for every environment, so whether
  the chain succeeds or raises.
\<close>

theorem handle_text_changes_chat_history_only:
  assumes "sessions st session_id = Some session_data"
  shows "(\<exists>session_data'.
            sessions (snd (handle_text env session_id question st)) session_id = Some session_data'
          \<and> doc_path session_data' = doc_path session_data
          \<and> vectorstore session_data' = vectorstore session_data
          \<and> conversation_chain session_data' = conversation_chain session_data
          \<and> document_summary session_data' = document_summary session_data
          \<and> summary_generated session_data' = summary_generated session_data)
    \<and> (\<forall>other. other \<noteq> session_id \<longrightarrow>
           sessions (snd (handle_text env session_id question st)) other = sessions st other)
    \<and> active_connections (snd (handle_text env session_id question st)) = active_connections st
    \<and> files (snd (handle_text env session_id question st)) = files st"
  using assms
  by (simp add: handle_text_def Let_def send_personal_message_frame)

theorem handle_text_changes_chat_history_only_witness:
  "sessions st_abc_connected ''abc'' = Some session_abc
   \<and> map_option doc_path
        (sessions (snd (handle_text ws_chain_fails ''abc'' ''Why?'' st_abc_connected)) ''abc'')
       = Some ''uploads/abc_0f3a.pdf''
   \<and> map_option document_summary
        (sessions (snd (handle_text ws_chain_fails ''abc'' ''Why?'' st_abc_connected)) ''abc'')
       = Some (Some ''A short summary.'')
   \<and> sessions (snd (handle_text ws_chain_fails ''abc'' ''Why?'' st_abc_connected)) ''other''
       = sessions st_abc_connected ''other''
   \<and> active_connections (snd (handle_text ws_chain_fails ''abc'' ''Why?'' st_abc_connected))
       = active_connections st_abc_connected"
proof -
  note F = handle_text_changes_chat_history_only
             [OF st_abc_connected_fields(1), of ws_chain_fails "''Why?''"]
  have f1: "map_option doc_path
        (sessions (snd (handle_text ws_chain_fails ''abc'' ''Why?'' st_abc_connected)) ''abc'')
       = Some ''uploads/abc_0f3a.pdf''"
    using F by (auto simp: session_abc_def)
  have f2: "map_option document_summary
        (sessions (snd (handle_text ws_chain_fails ''abc'' ''Why?'' st_abc_connected)) ''abc'')
       = Some (Some ''A short summary.'')"
    using F by (auto simp: session_abc_def)
  have f3: "sessions (snd (handle_text ws_chain_fails ''abc'' ''Why?'' st_abc_connected)) ''other''
       = sessions st_abc_connected ''other''"
    using F by simp
  have f4: "active_connections (snd (handle_text ws_chain_fails ''abc'' ''Why?'' st_abc_connected))
       = active_connections st_abc_connected"
    using F by simp
  show ?thesis
    using st_abc_connected_fields(1) f1 f2 f3 f4 by (intro conjI)
qed

subsection \<open>The manager: connect\<close>

text \<open>
  C6. A connect that is accepted, for an identifier whose entry holds a summary, makes
  after the \<open>accept\<close> exactly two \<open>send_text\<close> calls on the new socket: first the
  greeting, then the stored summary unchanged (the second is made once the first has
  not raised). A connect for an identifier with no entry, or with an entry that holds no
  summary, makes the \<open>accept\<close> call and sends nothing.
\<close>

theorem connect_sends_greeting_then_summary:
  "(\<forall>session_data summary.
       sessions st session_id = Some session_data
       \<and> document_summary session_data = Some summary
       \<and> accept env ws = None \<and> send_text env ws greeting = None \<longrightarrow>
       ws_calls (snd (connect env ws session_id st)) =
         ws_calls st @ [(ws, Accept, None), (ws, SendText greeting, None),
                        (ws, SendText summary, send_text env ws summary)])
   \<and> (sessions st session_id = None
        \<or> (\<exists>session_data. sessions st session_id = Some session_data
                           \<and> document_summary session_data = None) \<longrightarrow>
       ws_calls (snd (connect env ws session_id st)) = ws_calls st @ [(ws, Accept, accept env ws)])"
  by (auto simp: connect_def Let_def send_personal_message_def split: option.splits)

theorem connect_sends_greeting_then_summary_witness:
  "sessions st_abc ''abc'' = Some session_abc
   \<and> document_summary session_abc = Some ''A short summary.''
   \<and> ws_calls (snd (connect ws_ok 1 ''abc'' st_abc)) =
       [(1, Accept, None),
        (1, SendText ''Hello! I've processed your PDF. Here is a summary:'', None),
        (1, SendText ''A short summary.'', None)]
   \<and> sessions st_empty ''abc'' = None
   \<and> ws_calls (snd (connect ws_ok 1 ''abc'' st_empty)) = [(1, Accept, None)]"
proof -
  note F = connect_sends_greeting_then_summary [of st_abc "''abc''" ws_ok 1]
  note G = connect_sends_greeting_then_summary [of st_empty "''abc''" ws_ok 1]
  have s: "sessions st_abc ''abc'' = Some session_abc"
    by (simp add: st_abc_def)
  have d: "document_summary session_abc = Some ''A short summary.''"
    by (simp add: session_abc_def)
  have e: "sessions st_empty ''abc'' = None"
    by (simp add: st_empty_def)
  have c0: "ws_calls st_abc = []" "ws_calls st_empty = []"
    by (simp_all add: st_abc_def st_empty_def)
  have f: "ws_calls (snd (connect ws_ok 1 ''abc'' st_abc)) =
       [(1, Accept, None),
        (1, SendText ''Hello! I've processed your PDF. Here is a summary:'', None),
        (1, SendText ''A short summary.'', None)]"
    using F s d by (simp add: ws_ok_fields c0 greeting_def)
  have g: "ws_calls (snd (connect ws_ok 1 ''abc'' st_empty)) = [(1, Accept, None)]"
    using G e by (simp add: ws_ok_fields c0)
  show ?thesis
    using s d f e g by (intro conjI)
qed

subsection \<open>The manager: the registry\<close>

text \<open>
  C8. After every sequence of \<open>connect\<close> and \<open>disconnect\<close> calls, from every
  state, the registry holds at most one connection for each identifier. An accepted
  connect puts the new socket under the identifier, whatever was registered there
  before, and every call it makes on a socket is made on the new one: nothing is called
  on the socket it displaces, which the code has no call to close.
\<close>

theorem registry_holds_one_connection_per_session:
  "card {ws. active_connections (run_manager_ops env ops st) session_id = Some ws} \<le> 1
   \<and> (accept env ws = None \<longrightarrow>
        active_connections (snd (connect env ws session_id st)) =
          (active_connections st)(session_id \<mapsto> ws)
      \<and> (\<exists>calls. ws_calls (snd (connect env ws session_id st)) = ws_calls st @ calls
                 \<and> (\<forall>c \<in> set calls. fst c = ws)))"
proof -
  have one: "card {w. active_connections (run_manager_ops env ops st) session_id = Some w} \<le> 1"
  proof (cases "active_connections (run_manager_ops env ops st) session_id")
    case None
    then show ?thesis by simp
  next
    case (Some w0)
    then have "{w. active_connections (run_manager_ops env ops st) session_id = Some w} = {w0}"
      by auto
    then show ?thesis by simp
  qed
  have calls: "accept env ws = None \<Longrightarrow>
      \<exists>calls. ws_calls (snd (connect env ws session_id st)) = ws_calls st @ calls
                 \<and> (\<forall>c \<in> set calls. fst c = ws)"
    by (auto simp: connect_def Let_def send_personal_message_def split: option.splits)
  show ?thesis
    using one calls connect_registers [of env ws session_id st] by blast
qed

theorem registry_holds_one_connection_per_session_witness:
  "active_connections st_abc_connected ''abc'' = Some 1
   \<and> active_connections (snd (connect ws_ok 2 ''abc'' st_abc_connected)) ''abc'' = Some 2
   \<and> card {ws. active_connections
                  (run_manager_ops ws_ok [Connect 1 ''abc'', Connect 2 ''abc''] st_empty) ''abc''
                = Some ws} \<le> 1
   \<and> (\<exists>calls. ws_calls (snd (connect ws_ok 2 ''abc'' st_abc_connected))
                  = ws_calls st_abc_connected @ calls
               \<and> (\<forall>c \<in> set calls. fst c = 2))"
proof -
  note F = registry_holds_one_connection_per_session
             [of ws_ok "[Connect 1 ''abc'', Connect 2 ''abc'']" st_empty "''abc''" 2]
  note G = registry_holds_one_connection_per_session
             [of ws_ok "[]" st_abc_connected "''abc''" 2]
  have acc: "accept ws_ok 2 = None"
    by (simp add: ws_ok_fields)
  have g1: "active_connections (snd (connect ws_ok 2 ''abc'' st_abc_connected)) ''abc'' = Some 2"
    using G acc by simp
  have g2: "\<exists>calls. ws_calls (snd (connect ws_ok 2 ''abc'' st_abc_connected))
                  = ws_calls st_abc_connected @ calls
               \<and> (\<forall>c \<in> set calls. fst c = 2)"
    using G acc by blast
  have f: "card {ws. active_connections
                  (run_manager_ops ws_ok [Connect 1 ''abc'', Connect 2 ''abc''] st_empty) ''abc''
                = Some ws} \<le> 1"
    using F by blast
  show ?thesis
    using st_abc_connected_fields(2) g1 f g2 by (intro conjI)
qed

text \<open>
  C9. \<open>disconnect\<close> leaves no connection registered for the identifier and touches
  no other identifier, no session, no file and no socket; when none was registered it
  returns the state as it was. A \<open>send_personal_message\<close> for the identifier after it
  makes no call on any socket and raises nothing.
\<close>

theorem disconnect_then_send_is_silent:
  "active_connections (disconnect session_id st) session_id = None
   \<and> (\<forall>other. other \<noteq> session_id \<longrightarrow>
          active_connections (disconnect session_id st) other = active_connections st other)
   \<and> (active_connections st session_id = None \<longrightarrow> disconnect session_id st = st)
   \<and> sessions (disconnect session_id st) = sessions st
   \<and> files (disconnect session_id st) = files st
   \<and> ws_calls (disconnect session_id st) = ws_calls st
   \<and> send_personal_message env message session_id (disconnect session_id st) =
       (None, disconnect session_id st)"
  by (auto simp: disconnect_def send_personal_message_def)

theorem disconnect_then_send_is_silent_witness:
  "active_connections st_abc_connected ''abc'' = Some 1
   \<and> active_connections (disconnect ''abc'' st_abc_connected) ''abc'' = None
   \<and> disconnect ''abc'' st_empty = st_empty
   \<and> send_personal_message ws_ok ''late answer'' ''abc'' (disconnect ''abc'' st_abc_connected)
       = (None, disconnect ''abc'' st_abc_connected)
   \<and> ws_calls (disconnect ''abc'' st_abc_connected) = ws_calls st_abc_connected"
proof -
  note F = disconnect_then_send_is_silent [of "''abc''" st_abc_connected ws_ok "''late answer''"]
  note G = disconnect_then_send_is_silent [of "''abc''" st_empty ws_ok "''late answer''"]
  have "active_connections st_empty ''abc'' = None"
    by (simp add: st_empty_def)
  with G have g: "disconnect ''abc'' st_empty = st_empty"
    by blast
  show ?thesis
    using st_abc_connected_fields(2) F g by (intro conjI) simp_all
qed

subsection \<open>The endpoint: a failure that is not a disconnect\<close>

text \<open>
  C3 does not hold of the code. On web socket 1 connecting for \<open>abc\<close>, when
  \<open>receive_text\<close> raises an exception that is not a \<open>WebSocketDisconnect\<close>, the
  endpoint sends the one diagnostic message and returns, and the registry still holds
  socket 1 for \<open>abc\<close>: the second \<open>except\<close> clause (lines 173 to 175) never calls
  \<open>manager.disconnect\<close>. The first clause (lines 171 and 172) does: after a
  \<open>WebSocketDisconnect\<close> nothing is registered for \<open>abc\<close>.
\<close>

theorem websocket_endpoint_error_keeps_registration:
  "fst (websocket_endpoint ws_ok 1 ''abc'' [RecvRaises (Exception ''boom'')] st_empty) = Returned
   \<and> ws_calls (snd (websocket_endpoint ws_ok 1 ''abc'' [RecvRaises (Exception ''boom'')] st_empty))
       = [(1, Accept, None), (1, SendText ''An unexpected error occurred: boom'', None)]
   \<and> active_connections
        (snd (websocket_endpoint ws_ok 1 ''abc'' [RecvRaises (Exception ''boom'')] st_empty)) ''abc''
       = Some 1
   \<and> active_connections
        (snd (websocket_endpoint ws_ok 1 ''abc'' [RecvRaises WebSocketDisconnect] st_empty)) ''abc''
       = None"
  by (simp add: websocket_endpoint_def connect_def send_personal_message_def disconnect_def
        ws_ok_def st_empty_def Let_def)

text \<open>
  The same on every run: when the loop ends with an exception that is not a disconnect,
  the registry entry of the identifier is the one \<open>connect\<close> left.
\<close>

lemma websocket_endpoint_error_registry:
  assumes "connect env ws session_id st = (None, st1)"
    and "receive_loop env session_id inbound st1 = (Raised (Exception m), st2)"
  shows "active_connections (snd (websocket_endpoint env ws session_id inbound st)) session_id
           = active_connections st1 session_id"
proof -
  let ?message = "''An unexpected error occurred: '' @ m"
  have loop: "active_connections st2 = active_connections st1"
    using receive_loop_registry [of env session_id inbound st1] assms(2) by simp
  obtain r st3 where send: "send_personal_message env ?message session_id st2 = (r, st3)"
    by (cases "send_personal_message env ?message session_id st2")
  have "active_connections st3 = active_connections st2"
    using send_personal_message_frame(2) [of env ?message session_id st2] send by simp
  moreover have "snd (websocket_endpoint env ws session_id inbound st) = st3"
    using assms send by (cases r) (simp_all add: websocket_endpoint_def)
  ultimately show ?thesis
    using loop by simp
qed


end
